theory Spec2Isabelle
  imports
    Main
    "HOL-Library.Word"
    "HOL-Library.AList"
    "HOL-Library.Char_ord"
    "HOL-Library.List_Lexorder"
begin

unbundle bit_operations_syntax

section \<open>Strings\<close>

text \<open>
  A Python \<open>str\<close> is modelled by the \<^typ>\<open>string\<close> that holds its UTF-8 encoding, one
  \<^typ>\<open>char\<close> per byte. The three non-ASCII characters of the notification texts are
  written out as their three-byte encodings. Comparing such strings byte by byte orders
  them as Python orders them by code point.
\<close>

definition bullet :: string where
  "bullet = [CHR 0xE2, CHR 0x80, CHR 0xA2]"

definition em_dash :: string where
  "em_dash = [CHR 0xE2, CHR 0x80, CHR 0x94]"

definition ellipsis :: string where
  "ellipsis = [CHR 0xE2, CHR 0x80, CHR 0xA6]"

text \<open>\<open>str(n)\<close> of a non-negative integer: its decimal digits.\<close>

definition digit_char :: "nat \<Rightarrow> char" where
  "digit_char d = char_of (48 + d)"

fun str_nat :: "nat \<Rightarrow> string" where
  "str_nat n = (if n < 10 then [digit_char n] else str_nat (n div 10) @ [digit_char (n mod 10)])"

declare str_nat.simps [simp del]

text \<open>\<open>sep.join(parts)\<close>.\<close>

fun join :: "string \<Rightarrow> string list \<Rightarrow> string" where
  "join sep [] = []"
| "join sep [x] = x"
| "join sep (x # y # ys) = x @ sep @ join sep (y # ys)"

text \<open>\<open>s.startswith("/")\<close>.\<close>

definition startswith_slash :: "string \<Rightarrow> bool" where
  "startswith_slash s = (case s of [] \<Rightarrow> False | c # _ \<Rightarrow> c = CHR ''/'')"

section \<open>SHA-1 (\<open>hashlib.sha1\<close>) and the identity function\<close>

text \<open>
  \<open>hashlib.sha1(bs).hexdigest()\<close> is the SHA-1 of FIPS 180: the message is padded with
  the byte 0x80, zero bytes and its bit length as 64 bits big-endian up to a multiple of
  64 bytes; every 64-byte block is expanded to eighty 32-bit words and run through eighty
  rounds; the five chaining words are printed as forty lower-case hexadecimal digits.
\<close>

type_synonym byte = "8 word"
type_synonym w32 = "32 word"

definition encode_utf8 :: "string \<Rightarrow> byte list" where
  "encode_utf8 s = map (\<lambda>c. of_nat (of_char c)) s"

definition be64 :: "nat \<Rightarrow> byte list" where
  "be64 n = map (\<lambda>i. of_nat (n div 2 ^ (8 * (7 - i)))) [0..<8]"

definition sha1_pad :: "byte list \<Rightarrow> byte list" where
  "sha1_pad m =
     m @ [0x80] @ replicate ((119 - length m mod 64) mod 64) 0 @ be64 (8 * length m)"

definition be_word :: "byte list \<Rightarrow> w32" where
  "be_word bs = fold (\<lambda>b w. push_bit 8 w OR ucast b) bs 0"

definition block_words :: "byte list \<Rightarrow> w32 list" where
  "block_words blk = map (\<lambda>i. be_word (take 4 (drop (4 * i) blk))) [0..<16]"

fun sha1_expand :: "nat \<Rightarrow> w32 list \<Rightarrow> w32 list" where
  "sha1_expand 0 w = w"
| "sha1_expand (Suc n) w =
     (let i = length w
      in sha1_expand n
           (w @ [word_rotl 1 (w ! (i - 3) XOR w ! (i - 8) XOR w ! (i - 14) XOR w ! (i - 16))]))"

type_synonym sha1_state = "w32 \<times> w32 \<times> w32 \<times> w32 \<times> w32"

definition sha1_round :: "w32 list \<Rightarrow> nat \<Rightarrow> sha1_state \<Rightarrow> sha1_state" where
  "sha1_round w i s =
     (case s of (a, b, c, d, e) \<Rightarrow>
        let f = (if i < 20 then (b AND c) OR (NOT b AND d)
                 else if i < 40 then b XOR c XOR d
                 else if i < 60 then (b AND c) OR (b AND d) OR (c AND d)
                 else b XOR c XOR d);
            k = (if i < 20 then 0x5A827999
                 else if i < 40 then 0x6ED9EBA1
                 else if i < 60 then 0x8F1BBCDC
                 else 0xCA62C1D6);
            temp = word_rotl 5 a + f + e + k + w ! i
        in (temp, a, word_rotl 30 b, c, d))"

definition sha1_block :: "byte list \<Rightarrow> sha1_state \<Rightarrow> sha1_state" where
  "sha1_block blk h =
     (case h of (h0, h1, h2, h3, h4) \<Rightarrow>
        case fold (sha1_round (sha1_expand 64 (block_words blk))) [0..<80] h of
          (a, b, c, d, e) \<Rightarrow> (h0 + a, h1 + b, h2 + c, h3 + d, h4 + e))"

definition sha1_blocks :: "byte list \<Rightarrow> byte list list" where
  "sha1_blocks m = map (\<lambda>i. take 64 (drop (64 * i) m)) [0..<length m div 64]"

definition sha1_init :: sha1_state where
  "sha1_init = (0x67452301, 0xEFCDAB89, 0x98BADCFE, 0x10325476, 0xC3D2E1F0)"

definition sha1 :: "byte list \<Rightarrow> sha1_state" where
  "sha1 m = fold sha1_block (sha1_blocks (sha1_pad m)) sha1_init"

definition hex_digit :: "nat \<Rightarrow> char" where
  "hex_digit n = ''0123456789abcdef'' ! (n mod 16)"

definition hex_word :: "w32 \<Rightarrow> string" where
  "hex_word w = map (\<lambda>i. hex_digit (unat (drop_bit (4 * (7 - i)) w))) [0..<8]"

definition hexdigest :: "sha1_state \<Rightarrow> string" where
  "hexdigest h =
     (case h of (h0, h1, h2, h3, h4) \<Rightarrow>
        hex_word h0 @ hex_word h1 @ hex_word h2 @ hex_word h3 @ hex_word h4)"

definition sha1_hexdigest :: "byte list \<Rightarrow> string" where
  "sha1_hexdigest m = hexdigest (sha1 m)"

section \<open>Products\<close>

record Product =
  roaster :: string
  title :: string
  url :: string
  price_text :: string
  in_stock :: bool
  producer :: string
  country :: string
  region :: string
  process :: string
  variety :: string
  notes' :: string
  profile :: string
  image' :: string

text \<open>The method \<open>Product.id\<close>.\<close>

definition Product_id :: "Product \<Rightarrow> string" where
  "Product_id p = take 16 (sha1_hexdigest (encode_utf8 (url p)))"

definition product_id_from_url :: "string \<Rightarrow> string" where
  "product_id_from_url u = take 16 (sha1_hexdigest (encode_utf8 u))"

section \<open>Listing pages (\<open>parse_products\<close>)\<close>

record RoasterConfig =
  name :: string
  start_url :: string
  product_selector :: string
  title_selector :: string
  link_selector :: string
  price_selector :: "string option"
  soldout_selector :: "string option"

text \<open>
  The HTML parser is a library. A listing page is modelled by what its queries return: for
  every node that \<open>soup.select(cfg.product_selector)\<close> yields, the answers to the queries
  that the nested function \<open>extract\<close> (here \<open>extract_node\<close>) makes on it, and for the
  fallback every anchor that \<open>soup.select("a[href*='/products/']")\<close> yields.
  \<open>urljoin\<close> is a parameter.
\<close>

record node =
  link_href :: "string option"
    \<comment> \<open>\<open>link.get("href")\<close>; \<open>None\<close> when no link matches or it has no href\<close>
  title_text :: string
    \<comment> \<open>\<open>normalize_space(title_el.get_text(" "))\<close>\<close>
  img_url :: string
  price_el_text :: "string option"
    \<comment> \<open>normalised text of the element matching the price selector, if there is one\<close>
  soldout_badge :: bool
    \<comment> \<open>an element matches the sold-out selector and its text matches \<open>sold\s*out\<close>\<close>
  soldout_in_text :: bool
    \<comment> \<open>the full text of the node matches \<open>\bSold\s*out\b\<close>\<close>

record anchor =
  a_href :: "string option"
  a_text :: string
    \<comment> \<open>\<open>normalize_space(a.get_text(" "))\<close>\<close>

record page =
  nodes :: "node list"
  anchors :: "anchor list"

text \<open>Python's truth value of an optional selector string.\<close>

definition selector_set :: "string option \<Rightarrow> bool" where
  "selector_set s = (case s of None \<Rightarrow> False | Some t \<Rightarrow> t \<noteq> [])"

definition extract_node :: "(string \<Rightarrow> string \<Rightarrow> string) \<Rightarrow> RoasterConfig \<Rightarrow> node \<Rightarrow> Product option" where
  "extract_node urljoin cfg n =
     (case link_href n of
        None \<Rightarrow> None
      | Some href \<Rightarrow>
          if href = [] then None
          else
            let u = (if startswith_slash href then urljoin (start_url cfg) href else href);
                price = (if selector_set (price_selector cfg)
                         then (case price_el_text n of None \<Rightarrow> [] | Some t \<Rightarrow> t) else []);
                in_stock1 = \<not> (selector_set (soldout_selector cfg) \<and> soldout_badge n);
                in_stock2 = (if in_stock1 \<and> soldout_in_text n then False else in_stock1)
            in Some \<lparr>roaster = name cfg, title = title_text n, url = u, price_text = price,
                      in_stock = in_stock2, producer = [], country = [], region = [],
                      process = [], variety = [], notes' = [], profile = [],
                      image' = img_url n\<rparr>)"

text \<open>One round of the loop \<open>for n in nodes\<close>; the state is \<open>(out, seen_urls)\<close>.\<close>

definition add_product :: "Product option \<Rightarrow> Product list \<times> string set \<Rightarrow> Product list \<times> string set" where
  "add_product found st =
     (case st of (out, seen_urls) \<Rightarrow>
        (case found of
           None \<Rightarrow> st
         | Some p \<Rightarrow> if url p \<notin> seen_urls then (out @ [p], insert (url p) seen_urls) else st))"

text \<open>One round of the fallback loop over the anchors.\<close>

definition add_anchor ::
  "(string \<Rightarrow> string \<Rightarrow> string) \<Rightarrow> RoasterConfig \<Rightarrow> anchor \<Rightarrow> Product list \<times> string set \<Rightarrow> Product list \<times> string set" where
  "add_anchor urljoin cfg a st =
     (case st of (out, seen_urls) \<Rightarrow>
        let href = (case a_href a of None \<Rightarrow> [] | Some h \<Rightarrow> h)
        in if href = [] then st
           else
             let u = (if startswith_slash href then urljoin (start_url cfg) href else href)
             in if u \<in> seen_urls then st
                else
                  let t = (if a_text a = [] then ''(untitled)'' else a_text a)
                  in (out @ [\<lparr>roaster = name cfg, title = t, url = u, price_text = [],
                               in_stock = True, producer = [], country = [], region = [],
                               process = [], variety = [], notes' = [], profile = [],
                               image' = []\<rparr>],
                      insert u seen_urls))"

definition parse_products :: "(string \<Rightarrow> string \<Rightarrow> string) \<Rightarrow> RoasterConfig \<Rightarrow> page \<Rightarrow> Product list" where
  "parse_products urljoin cfg pg =
     (let st = fold (\<lambda>n. add_product (extract_node urljoin cfg n)) (nodes pg) ([], {})
      in if fst st = [] then fst (fold (add_anchor urljoin cfg) (anchors pg) st) else fst st)"

text \<open>
  The result of \<open>parse_products\<close> is stated against three auxiliary notions. The candidates
  of a page are the products that the loops build before the test on \<open>seen_urls\<close>: for the
  selector path every value that \<open>extract\<close> returns, in the order of the nodes; for the
  fallback path the product that the loop body builds from an anchor with a non-empty
  \<open>href\<close> (\<open>fallback_product\<close>), in the order of the anchors. The fallback is taken when
  the selector path has no candidate. \<open>keep_first\<close> keeps, of the products with a common
  URL, the one that comes first in the list.
\<close>

fun keep_first :: "Product list \<Rightarrow> Product list" where
  "keep_first [] = []"
| "keep_first (p # ps) = p # keep_first (filter (\<lambda>q. url q \<noteq> url p) ps)"

definition fallback_product :: "(string \<Rightarrow> string \<Rightarrow> string) \<Rightarrow> RoasterConfig \<Rightarrow> anchor \<Rightarrow> Product option" where
  "fallback_product urljoin cfg a =
     (let href = (case a_href a of None \<Rightarrow> [] | Some h \<Rightarrow> h)
      in if href = [] then None
         else Some \<lparr>roaster = name cfg,
                     title = (if a_text a = [] then ''(untitled)'' else a_text a),
                     url = (if startswith_slash href then urljoin (start_url cfg) href else href),
                     price_text = [], in_stock = True, producer = [], country = [], region = [],
                     process = [], variety = [], notes' = [], profile = [], image' = []\<rparr>)"

definition candidates :: "(string \<Rightarrow> string \<Rightarrow> string) \<Rightarrow> RoasterConfig \<Rightarrow> page \<Rightarrow> Product list" where
  "candidates urljoin cfg pg =
     (let sel = List.map_filter (extract_node urljoin cfg) (nodes pg)
      in if sel = [] then List.map_filter (fallback_product urljoin cfg) (anchors pg) else sel)"


section \<open>The remote store\<close>

text \<open>
  A document of the collection is the record that \<open>upsert_firestore\<close> writes: every write of
  this program carries all fifteen fields. The collection is an association list from
  document id to document, in the order in which \<open>stream()\<close> yields it.
\<close>

record doc =
  d_roaster :: string
  d_title :: string
  d_url :: string
  d_price :: string
  d_in_stock :: bool
  d_first_seen :: string
  d_last_seen :: string
  d_producer :: string
  d_country :: string
  d_region :: string
  d_process :: string
  d_variety :: string
  d_notes :: string
  d_profile :: string
  d_image :: string

type_synonym firestore = "(string \<times> doc) list"

datatype error = FetchError | RemoteError | OperationalError

definition doc_of :: "Product \<Rightarrow> string \<Rightarrow> string \<Rightarrow> doc" where
  "doc_of p first_seen last_seen =
     \<lparr>d_roaster = roaster p, d_title = title p, d_url = url p, d_price = price_text p,
      d_in_stock = in_stock p, d_first_seen = first_seen, d_last_seen = last_seen,
      d_producer = producer p, d_country = country p, d_region = region p,
      d_process = process p, d_variety = variety p, d_notes = notes' p,
      d_profile = profile p, d_image = image' p\<rparr>"

text \<open>
  \<open>upsert_firestore\<close>. Whether the remote call returns or raises is decided outside the
  program; the flag \<open>ok\<close> is that outcome. A call that raises writes nothing.
\<close>

definition upsert_firestore ::
  "bool \<Rightarrow> firestore \<Rightarrow> Product \<Rightarrow> string \<Rightarrow> string \<Rightarrow> error + (string \<times> firestore)" where
  "upsert_firestore ok db p first_seen last_seen =
     (if \<not> ok then Inl RemoteError
      else let doc_id = Product_id p
           in Inr (doc_id, AList.update doc_id (doc_of p first_seen last_seen) db))"

definition load_firestore_index :: "firestore \<Rightarrow> (string \<rightharpoonup> string)" where
  "load_firestore_index db = fold (\<lambda>(k, d) out. out(k \<mapsto> d_first_seen d)) db Map.empty"

text \<open>\<open>batch.commit()\<close> of a batch of \<open>update(ref, {"in_stock": False})\<close> operations.\<close>

definition commit :: "string list \<Rightarrow> firestore \<Rightarrow> firestore" where
  "commit batch db = fold (\<lambda>k. AList.map_entry k (\<lambda>d. d\<lparr>d_in_stock := False\<rparr>)) batch db"

text \<open>
  The inner loop of \<open>mark_stale_by_roaster\<close> over the documents of one roaster; the state is
  \<open>(batch, ops, total, db)\<close> (\<open>total\<close> is written \<open>updated\<close>).
\<close>

fun stale_docs ::
  "nat \<Rightarrow> string set \<Rightarrow> (string \<times> doc) list \<Rightarrow> string list \<times> nat \<times> nat \<times> firestore
     \<Rightarrow> string list \<times> nat \<times> nat \<times> firestore" where
  "stale_docs batch_size seen_ids [] st = st"
| "stale_docs batch_size seen_ids ((k, d) # ds) (batch, ops, updated, db) =
     (if seen_ids \<noteq> {} \<and> k \<in> seen_ids
      then stale_docs batch_size seen_ids ds (batch, ops, updated, db)
      else if ops + 1 \<ge> batch_size
      then stale_docs batch_size seen_ids ds ([], 0, updated + (ops + 1), commit (batch @ [k]) db)
      else stale_docs batch_size seen_ids ds (batch @ [k], ops + 1, updated, db))"

definition stale_roaster :: "nat \<Rightarrow> string \<times> string set \<Rightarrow> nat \<times> firestore \<Rightarrow> nat \<times> firestore" where
  "stale_roaster batch_size entry st =
     (case entry of (r, seen_ids) \<Rightarrow>
      case st of (updated, db) \<Rightarrow>
      case stale_docs batch_size seen_ids (filter (\<lambda>(k, d). d_roaster d = r) db) ([], 0, updated, db) of
        (batch, ops, updated', db') \<Rightarrow>
          if ops \<noteq> 0 then (updated' + ops, commit batch db') else (updated', db'))"

definition mark_stale_by_roaster ::
  "firestore \<Rightarrow> (string \<times> string set) list \<Rightarrow> nat \<Rightarrow> nat \<times> firestore" where
  "mark_stale_by_roaster db seen_ids_by_roaster batch_size =
     fold (stale_roaster batch_size) seen_ids_by_roaster (0, db)"

section \<open>The local mirror\<close>

text \<open>
  The table \<open>coffees\<close>: the names of its columns (read by \<open>PRAGMA table_info\<close>) and its rows
  in insertion order. The autoincrement \<open>id\<close> is left out: the program only tests whether a
  row exists. A column that a statement does not set holds \<open>None\<close> (SQL NULL); \<open>in_stock\<close>
  and \<open>tried\<close> are SQLite integers.
\<close>

record row =
  c_roaster :: string
  c_title :: string
  c_url :: string
  c_price :: string
  c_in_stock :: int
  c_first_seen :: string
  c_last_seen :: string
  c_producer :: string
  c_country :: string
  c_region :: string
  c_process :: string
  c_variety :: string
  c_notes :: string
  c_profile :: string
  c_image :: "string option"
  c_price_text :: "string option"
  c_tried :: int

record sqlite =
  cols :: "string set"
  rows :: "row list"

text \<open>\<open>UPDATE coffees SET ... WHERE cond\<close>, and the \<open>rowcount\<close> it reports.\<close>

definition sql_update :: "(row \<Rightarrow> bool) \<Rightarrow> (row \<Rightarrow> row) \<Rightarrow> sqlite \<Rightarrow> sqlite" where
  "sql_update cond f conn = conn\<lparr>rows := map (\<lambda>r. if cond r then f r else r) (rows conn)\<rparr>"

definition rowcount :: "(row \<Rightarrow> bool) \<Rightarrow> sqlite \<Rightarrow> nat" where
  "rowcount cond conn = length (filter cond (rows conn))"

definition int_of_bool :: "bool \<Rightarrow> int" where
  "int_of_bool b = (if b then 1 else 0)"

text \<open>
  \<open>ensure_row_sqlite\<close>. Its INSERT and its UPDATE both name the column \<open>image\<close>; SQLite
  raises \<open>OperationalError\<close> for a statement that names a column the table does not have,
  before any row is written.
\<close>

definition ensure_row_sqlite :: "sqlite \<Rightarrow> Product \<Rightarrow> string \<Rightarrow> string \<Rightarrow> error + sqlite" where
  "ensure_row_sqlite conn p first_seen last_seen =
     (let has_legacy_price_text = (''price_text'' \<in> cols conn)
      in case find (\<lambda>r. c_url r = url p) (rows conn) of
           None \<Rightarrow>
             if ''image'' \<notin> cols conn then Inl OperationalError
             else
               let new = \<lparr>c_roaster = roaster p, c_title = title p, c_url = url p,
                          c_price = price_text p, c_in_stock = int_of_bool (in_stock p),
                          c_first_seen = first_seen, c_last_seen = last_seen,
                          c_producer = producer p, c_country = country p, c_region = region p,
                          c_process = process p, c_variety = variety p, c_notes = notes' p,
                          c_profile = profile p, c_image = Some (image' p),
                          c_price_text = None, c_tried = 0\<rparr>;
                   conn1 = conn\<lparr>rows := rows conn @ [new]\<rparr>
               in Inr (if has_legacy_price_text
                       then sql_update (\<lambda>r. c_url r = url p)
                              (\<lambda>r. r\<lparr>c_price_text := Some (price_text p)\<rparr>) conn1
                       else conn1)
         | Some _ \<Rightarrow>
             if ''image'' \<notin> cols conn then Inl OperationalError
             else
               let conn1 = sql_update (\<lambda>r. c_url r = url p)
                             (\<lambda>r. r\<lparr>c_title := title p, c_price := price_text p,
                                   c_in_stock := int_of_bool (in_stock p),
                                   c_last_seen := last_seen, c_producer := producer p,
                                   c_country := country p, c_region := region p,
                                   c_process := process p, c_variety := variety p,
                                   c_notes := notes' p, c_profile := profile p,
                                   c_image := Some (image' p)\<rparr>) conn
               in Inr (if has_legacy_price_text
                       then sql_update (\<lambda>r. c_url r = url p)
                              (\<lambda>r. r\<lparr>c_price_text := Some (price_text p)\<rparr>) conn1
                       else conn1))"


text \<open>One round of the loop of \<open>mark_stale_sqlite\<close>; the state is \<open>(total, conn)\<close>.\<close>

definition stale_rows :: "string \<times> string set \<Rightarrow> nat \<times> sqlite \<Rightarrow> nat \<times> sqlite" where
  "stale_rows entry st =
     (case entry of (r, urls) \<Rightarrow>
      case st of (updated, conn) \<Rightarrow>
        if urls \<noteq> {}
        then (updated + rowcount (\<lambda>rw. c_roaster rw = r \<and> c_url rw \<notin> urls) conn,
              sql_update (\<lambda>rw. c_roaster rw = r \<and> c_url rw \<notin> urls)
                (\<lambda>rw. rw\<lparr>c_in_stock := 0\<rparr>) conn)
        else (updated + rowcount (\<lambda>rw. c_roaster rw = r) conn,
              sql_update (\<lambda>rw. c_roaster rw = r) (\<lambda>rw. rw\<lparr>c_in_stock := 0\<rparr>) conn))"

definition mark_stale_sqlite :: "sqlite \<Rightarrow> (string \<times> string set) list \<Rightarrow> nat \<times> sqlite" where
  "mark_stale_sqlite conn seen_by_roaster = fold stale_rows seen_by_roaster (0, conn)"







section \<open>The notification composer\<close>

text \<open>\<open>_truncate_lines\<close>.\<close>

definition truncate_lines :: "string list \<Rightarrow> nat \<Rightarrow> string list" where
  "truncate_lines ls max_lines =
     (if length ls \<le> max_lines then ls
      else let hidden = length ls - max_lines
           in take max_lines ls @ [''+'' @ str_nat hidden @ '' more'' @ ellipsis])"

text \<open>The loop that fills the \<open>defaultdict(list)\<close> \<open>by_r\<close>.\<close>

definition group_by_roaster :: "(Product \<times> string) list \<Rightarrow> string \<Rightarrow> (Product \<times> string) list" where
  "group_by_roaster new_items =
     fold (\<lambda>(p, pid) by_r. by_r(roaster p := by_r (roaster p) @ [(p, pid)])) new_items (\<lambda>r. [])"

definition item_line :: "Product \<Rightarrow> string" where
  "item_line p =
     bullet @ '' '' @ title p
       @ (if price_text p \<noteq> [] then '' '' @ em_dash @ '' '' @ price_text p else [])"

definition roaster_line :: "string \<Rightarrow> (Product \<times> string) list \<Rightarrow> string" where
  "roaster_line r items =
     (let shown = take 2 items;
          extras = length items - length shown;
          ro_line = r @ '': '' @ join ''; '' (map (\<lambda>(p, pid). title p) shown);
          ro_line' = (if extras > 0 then ro_line @ ''; +'' @ str_nat extras @ '' more'' else ro_line)
      in bullet @ '' '' @ ro_line')"

definition build_ntfy_message :: "(Product \<times> string) list \<Rightarrow> string \<times> string list \<times> string option" where
  "build_ntfy_message new_items =
     (case new_items of
        [] \<Rightarrow> ([], [], None)
      | (p0, first_pid) # rest \<Rightarrow>
          let n = length new_items;
              roasters = map (\<lambda>(p, pid). roaster p) new_items;
              unique_roasters = sort (remdups roasters)
          in if n = 1
             then
               let bits = (if price_text p0 \<noteq> [] then [price_text p0] else []);
                   body = [(if bits \<noteq> [] then join ('' '' @ bullet @ '' '') bits
                            else ''New coffee!''), url p0]
               in (''New from '' @ roaster p0 @ '': '' @ title p0, body, Some first_pid)
             else
               let by_r = group_by_roaster new_items
               in (case unique_roasters of
                     [r] \<Rightarrow>
                       (str_nat n @ '' new coffees from '' @ r,
                        truncate_lines (map (\<lambda>(p, pid). item_line p) (by_r r)) 8,
                        Some first_pid)
                   | _ \<Rightarrow>
                       (''New drops: '' @ str_nat n @ '' coffees from ''
                          @ str_nat (length unique_roasters) @ '' roasters'',
                        truncate_lines (map (\<lambda>r. roaster_line r (by_r r)) unique_roasters) 8,
                        Some first_pid)))"

section \<open>The reconciliation engine (\<open>run_once\<close>)\<close>

text \<open>
  What the outside world answers during a run is part of the input. For every configured
  roaster: the outcome of fetching and parsing its listing (an error, or the page), and for
  every product URL of that listing the detail dictionary that \<open>scrape_product_details\<close>
  returns, the clock reading \<open>now\<close> taken for that item, and whether the remote write
  returns. \<open>parse_products\<close> yields every URL of a listing once, so a function of the URL
  answers for every item.
\<close>

record item_io =
  io_details :: "string \<rightharpoonup> string"
  io_now :: string
  io_remote_ok :: bool

record source_run =
  src_cfg :: RoasterConfig
  src_listing :: "error + page"
  src_io :: "string \<Rightarrow> item_io"

record run_state =
  fdb :: firestore
  conn :: sqlite
  new_items :: "(Product \<times> string) list"
  seen_ids_by_roaster :: "(string \<times> string set) list"
  seen_urls_by_roaster :: "(string \<times> string set) list"
  succeeded_roasters :: "string set"

text \<open>\<open>details.get(key, default)\<close> and the enrichment of a product.\<close>

definition dict_get :: "(string \<rightharpoonup> string) \<Rightarrow> string \<Rightarrow> string \<Rightarrow> string" where
  "dict_get d k dflt = (case d k of None \<Rightarrow> dflt | Some v \<Rightarrow> v)"

definition enrich :: "Product \<Rightarrow> (string \<rightharpoonup> string) \<Rightarrow> Product" where
  "enrich p d =
     p\<lparr>producer := dict_get d ''producer'' [], country := dict_get d ''country'' [],
       region := dict_get d ''region'' [], process := dict_get d ''process'' [],
       variety := dict_get d ''variety'' [], notes' := dict_get d ''notes'' [],
       profile := dict_get d ''profile'' [], image' := dict_get d ''image'' (image' p)\<rparr>"

text \<open>\<open>seen[r].add(x)\<close> on a \<open>defaultdict(set)\<close>, kept in insertion order.\<close>

fun dd_add :: "string \<Rightarrow> string \<Rightarrow> (string \<times> string set) list \<Rightarrow> (string \<times> string set) list" where
  "dd_add r x [] = [(r, {x})]"
| "dd_add r x ((r', s) # rest) =
     (if r' = r then (r', insert x s) # rest else (r', s) # dd_add r x rest)"

text \<open>The body of \<open>for p in items\<close>.\<close>

definition process_item ::
  "(string \<rightharpoonup> string) \<Rightarrow> (string \<Rightarrow> item_io) \<Rightarrow> Product \<Rightarrow> run_state \<Rightarrow> run_state" where
  "process_item existing env p0 st =
     (let e = env (url p0);
          p = enrich p0 (io_details e);
          t = io_now e;
          pid = Product_id p;
          is_new = (existing pid = None);
          first = (if is_new then t
                   else (case existing pid of None \<Rightarrow> t | Some v \<Rightarrow> if v = [] then t else v));
          last = t
      in case upsert_firestore (io_remote_ok e) (fdb st) p first last of
           Inl err \<Rightarrow> st
         | Inr (doc_id, fdb') \<Rightarrow>
             (case ensure_row_sqlite (conn st) p first last of
                Inl err \<Rightarrow> st\<lparr>fdb := fdb'\<rparr>
              | Inr conn' \<Rightarrow>
                  st\<lparr>fdb := fdb', conn := conn',
                     new_items := (if is_new then new_items st @ [(p, doc_id)] else new_items st),
                     seen_ids_by_roaster := dd_add (roaster p) pid (seen_ids_by_roaster st),
                     seen_urls_by_roaster := dd_add (roaster p) (url p) (seen_urls_by_roaster st)\<rparr>))"

text \<open>The body of \<open>for cfg in roasters\<close>.\<close>

definition process_source ::
  "(string \<Rightarrow> string \<Rightarrow> string) \<Rightarrow> (string \<rightharpoonup> string) \<Rightarrow> source_run \<Rightarrow> run_state \<Rightarrow> run_state" where
  "process_source urljoin existing src st =
     (case src_listing src of
        Inl err \<Rightarrow> st
      | Inr pg \<Rightarrow>
          fold (process_item existing (src_io src)) (parse_products urljoin (src_cfg src) pg)
            (st\<lparr>succeeded_roasters := insert (name (src_cfg src)) (succeeded_roasters st)\<rparr>))"

definition process_all ::
  "(string \<Rightarrow> string \<Rightarrow> string) \<Rightarrow> firestore \<Rightarrow> sqlite \<Rightarrow> source_run list \<Rightarrow> run_state" where
  "process_all urljoin db c srcs =
     fold (process_source urljoin (load_firestore_index db)) srcs
       \<lparr>fdb = db, conn = c, new_items = [], seen_ids_by_roaster = [],
        seen_urls_by_roaster = [], succeeded_roasters = {}\<rparr>"

text \<open>The staleness pass at the end of \<open>run_once\<close>.\<close>

definition stale_pass :: "run_state \<Rightarrow> run_state" where
  "stale_pass st =
     (if succeeded_roasters st \<noteq> {}
      then
        let seen_ids_filtered =
              filter (\<lambda>(r, ids). r \<in> succeeded_roasters st) (seen_ids_by_roaster st);
            seen_urls_filtered =
              filter (\<lambda>(r, urls). r \<in> succeeded_roasters st) (seen_urls_by_roaster st)
        in st\<lparr>fdb := snd (mark_stale_by_roaster (fdb st) seen_ids_filtered 400),
               conn := snd (mark_stale_sqlite (conn st) seen_urls_filtered)\<rparr>
      else st)"

record run_result =
  r_fdb :: firestore
  r_conn :: sqlite
  r_new_items :: "(Product \<times> string) list"
  r_message :: "((string \<times> string list \<times> string option) \<times> string list) option"
  r_count :: nat

definition run_once ::
  "(string \<Rightarrow> string \<Rightarrow> string) \<Rightarrow> firestore \<Rightarrow> sqlite \<Rightarrow> source_run list \<Rightarrow> run_result" where
  "run_once urljoin db c srcs =
     (let st = stale_pass (process_all urljoin db c srcs)
      in \<lparr>r_fdb = fdb st, r_conn = conn st, r_new_items = new_items st,
          r_message = (if new_items st \<noteq> []
                       then Some (build_ntfy_message (new_items st), map snd (new_items st))
                       else None),
          r_count = length (new_items st)\<rparr>)"

section \<open>Example data\<close>

text \<open>Small concrete values, used where a statement is evaluated at an explicit input.\<close>

definition example_product :: "string \<Rightarrow> string \<Rightarrow> string \<Rightarrow> string \<Rightarrow> Product" where
  "example_product r t u pr =
     \<lparr>roaster = r, title = t, url = u, price_text = pr, in_stock = True, producer = [],
      country = [], region = [], process = [], variety = [], notes' = [], profile = [],
      image' = []\<rparr>"



definition example_cfg :: "string \<Rightarrow> RoasterConfig" where
  "example_cfg r =
     \<lparr>name = r, start_url = ''https://example.com/collections/all'',
      product_selector = ''div.product'', title_selector = ''a'', link_selector = ''a'',
      price_selector = None, soldout_selector = None\<rparr>"

definition example_node :: "string \<Rightarrow> node" where
  "example_node href =
     \<lparr>link_href = Some href, title_text = ''Item'', img_url = [], price_el_text = None,
      soldout_badge = False, soldout_in_text = False\<rparr>"

definition example_io :: "string \<Rightarrow> bool \<Rightarrow> string \<Rightarrow> item_io" where
  "example_io t ok u = \<lparr>io_details = Map.empty, io_now = t, io_remote_ok = ok\<rparr>"

definition example_cols :: "string set" where
  "example_cols =
     {''id'', ''roaster'', ''title'', ''url'', ''price'', ''in_stock'', ''first_seen'',
      ''last_seen'', ''producer'', ''country'', ''region'', ''process'', ''variety'',
      ''notes'', ''profile'', ''tried'', ''image''}"


section \<open>The identity function\<close>

lemma length_hex_word: "length (hex_word w) = 8"
  by (simp add: hex_word_def)

lemma length_hexdigest: "length (hexdigest h) = 40"
  by (cases h) (simp add: hexdigest_def length_hex_word)

lemma hex_digit_hex: "hex_digit n \<in> set ''0123456789abcdef''"
  unfolding hex_digit_def by (rule nth_mem) simp

lemma set_hex_word: "set (hex_word w) \<subseteq> set ''0123456789abcdef''"
  unfolding hex_word_def using hex_digit_hex by (auto simp del: set_simps list.set)

lemma set_hexdigest: "set (hexdigest h) \<subseteq> set ''0123456789abcdef''"
proof (cases h)
  case (fields h0 h1 h2 h3 h4)
  show ?thesis
    unfolding fields hexdigest_def prod.case set_append
    using set_hex_word[of h0] set_hex_word[of h1] set_hex_word[of h2]
          set_hex_word[of h3] set_hex_word[of h4]
    by blast
qed

lemma length_Product_id: "length (Product_id p) = 16"
  by (simp add: Product_id_def sha1_hexdigest_def length_hexdigest)

text \<open>
  Claim C9. \<open>Product.id\<close> of a product and \<open>product_id_from_url\<close> of its URL are the same
  string: the first 16 characters of the hexadecimal SHA-1 digest of the UTF-8 encoding of
  the URL. That string has 16 characters, all of them lower-case hexadecimal digits.
\<close>

theorem product_id_agrees:
  "Product_id p = product_id_from_url (url p)
   \<and> product_id_from_url u = take 16 (sha1_hexdigest (encode_utf8 u))
   \<and> length (product_id_from_url u) = 16
   \<and> set (product_id_from_url u) \<subseteq> set ''0123456789abcdef''"
proof -
  have "set (take 16 (hexdigest (sha1 (encode_utf8 u)))) \<subseteq> set (hexdigest (sha1 (encode_utf8 u)))"
    by (rule set_take_subset)
  then have "set (product_id_from_url u) \<subseteq> set ''0123456789abcdef''"
    unfolding product_id_from_url_def sha1_hexdigest_def
    using set_hexdigest[of "sha1 (encode_utf8 u)"] by blast
  then show ?thesis
    by (simp add: Product_id_def product_id_from_url_def sha1_hexdigest_def length_hexdigest)
qed

section \<open>Listing pages\<close>

lemma add_anchor_add_product:
  "add_anchor urljoin c a st = add_product (fallback_product urljoin c a) st"
  by (cases st) (simp add: add_anchor_def add_product_def fallback_product_def Let_def)

lemma fold_add_product_map_filter:
  "fold (\<lambda>x. add_product (f x)) xs st = fold (\<lambda>p. add_product (Some p)) (List.map_filter f xs) st"
proof (induction xs arbitrary: st)
  case Nil
  show ?case by (simp add: List.map_filter_simps)
next
  case (Cons x xs)
  show ?case
  proof (cases "f x")
    case None
    then have "add_product (f x) st = st" by (cases st) (simp add: add_product_def)
    with None Cons show ?thesis by (simp add: List.map_filter_simps)
  next
    case (Some p)
    with Cons show ?thesis by (simp add: List.map_filter_simps)
  qed
qed

lemma fold_add_product_keep_first:
  "fold (\<lambda>p. add_product (Some p)) ps (out, seen)
     = (out @ keep_first (filter (\<lambda>p. url p \<notin> seen) ps), seen \<union> url ` set ps)"
proof (induction ps arbitrary: out seen)
  case Nil
  show ?case by simp
next
  case (Cons p ps)
  show ?case
  proof (cases "url p \<in> seen")
    case True
    then have "add_product (Some p) (out, seen) = (out, seen)" by (simp add: add_product_def)
    with True Cons[of out seen] show ?thesis by auto
  next
    case False
    then have s: "add_product (Some p) (out, seen) = (out @ [p], insert (url p) seen)"
      by (simp add: add_product_def)
    have f: "filter (\<lambda>q. url q \<notin> insert (url p) seen) ps
               = filter (\<lambda>q. url q \<noteq> url p) (filter (\<lambda>q. url q \<notin> seen) ps)"
      by (simp add: conj_commute)
    show ?thesis using False Cons[of "out @ [p]" "insert (url p) seen"] s f by simp
  qed
qed

lemma fold_candidates:
  "fold (\<lambda>x. add_product (f x)) xs ([], {}) = (keep_first (List.map_filter f xs), url ` set (List.map_filter f xs))"
proof -
  have "fold (\<lambda>x. add_product (f x)) xs ([], {})
          = fold (\<lambda>p. add_product (Some p)) (List.map_filter f xs) ([], {})"
    by (rule fold_add_product_map_filter)
  also have "\<dots> = (keep_first (List.map_filter f xs), url ` set (List.map_filter f xs))"
    by (simp add: fold_add_product_keep_first)
  finally show ?thesis .
qed


lemma keep_first_Nil_iff: "keep_first ps = [] \<longleftrightarrow> ps = []"
  by (cases ps) simp_all

lemma set_keep_first: "x \<in> set (keep_first ps) \<Longrightarrow> x \<in> set ps"
proof (induction ps rule: keep_first.induct)
  case 1
  then show ?case by simp
next
  case (2 p ps)
  show ?case
  proof (cases "x = p")
    case True
    then show ?thesis by simp
  next
    case False
    with "2.prems" have "x \<in> set (keep_first (filter (\<lambda>q. url q \<noteq> url p) ps))" by simp
    then have "x \<in> set (filter (\<lambda>q. url q \<noteq> url p) ps)" by (rule "2.IH")
    then show ?thesis by simp
  qed
qed

lemma distinct_keep_first: "distinct (map url (keep_first ps))"
proof (induction ps rule: keep_first.induct)
  case 1
  show ?case by simp
next
  case (2 p ps)
  have "url x \<noteq> url p" if "x \<in> set (keep_first (filter (\<lambda>q. url q \<noteq> url p) ps))" for x
  proof -
    have "x \<in> set (filter (\<lambda>q. url q \<noteq> url p) ps)" using that by (rule set_keep_first)
    then show ?thesis by simp
  qed
  then have "url p \<notin> url ` set (keep_first (filter (\<lambda>q. url q \<noteq> url p) ps))"
    by (metis imageE)
  with "2.IH" show ?case by simp
qed

lemma find_filter_neq:
  "u \<noteq> v \<Longrightarrow> find (\<lambda>q. url q = u) (filter (\<lambda>q. url q \<noteq> v) ps) = find (\<lambda>q. url q = u) ps"
  by (induction ps) auto

lemma find_keep_first: "find (\<lambda>q. url q = u) (keep_first ps) = find (\<lambda>q. url q = u) ps"
proof (induction ps rule: keep_first.induct)
  case 1
  show ?case by simp
next
  case (2 p ps)
  show ?case
  proof (cases "url p = u")
    case True
    then show ?thesis by simp
  next
    case False
    then have "find (\<lambda>q. url q = u) (filter (\<lambda>q. url q \<noteq> url p) ps) = find (\<lambda>q. url q = u) ps"
      by (intro find_filter_neq) auto
    with 2 False show ?thesis by simp
  qed
qed

lemma parse_products_keep_first: "parse_products urljoin c pg = keep_first (candidates urljoin c pg)"
proof -
  have a: "add_anchor urljoin c = (\<lambda>a. add_product (fallback_product urljoin c a))"
    by (rule ext)+ (simp add: add_anchor_add_product)
  show ?thesis
    unfolding parse_products_def candidates_def a fold_candidates Let_def
    by (simp add: keep_first_Nil_iff fold_candidates)
qed

text \<open>
  Claim C10. Of the candidates of a page with a common URL, \<open>parse_products\<close> returns the
  first and only the first, in the order of the page, on the selector path and on the
  fallback path over the anchors: its result is \<open>keep_first\<close> of the candidates. Hence the
  products returned have pairwise distinct URLs, and for every URL the product returned with
  that URL is the first candidate with that URL (and none is returned when there is no such
  candidate).
\<close>

theorem parse_products_first_occurrence:
  "parse_products urljoin c pg = keep_first (candidates urljoin c pg)
   \<and> distinct (map url (parse_products urljoin c pg))
   \<and> (\<forall>u. find (\<lambda>q. url q = u) (parse_products urljoin c pg)
            = find (\<lambda>q. url q = u) (candidates urljoin c pg))"
  by (simp add: parse_products_keep_first distinct_keep_first find_keep_first)


text \<open>
  Two pages with a repeated link: on the selector path the nodes titled First, Other and
  Second, the first and the third with the same link, give First and Other; on the fallback
  path the anchors First and Second with the same link give First.
\<close>

theorem parse_products_first_occurrence_example:
  "map title (parse_products (\<lambda>b h. b @ h) (example_cfg ''Acme'')
       \<lparr>nodes = [(example_node ''/products/a'')\<lparr>title_text := ''First''\<rparr>,
                 (example_node ''/products/b'')\<lparr>title_text := ''Other''\<rparr>,
                 (example_node ''/products/a'')\<lparr>title_text := ''Second''\<rparr>],
        anchors = []\<rparr>) = [''First'', ''Other'']
   \<and> map title (parse_products (\<lambda>b h. b @ h) (example_cfg ''Acme'')
       \<lparr>nodes = [],
        anchors = [\<lparr>a_href = Some ''/products/a'', a_text = ''First''\<rparr>,
                   \<lparr>a_href = Some ''/products/a'', a_text = ''Second''\<rparr>]\<rparr>) = [''First'']"
  using parse_products_first_occurrence[of "\<lambda>b h. b @ h" "example_cfg ''Acme''"
       "\<lparr>nodes = [(example_node ''/products/a'')\<lparr>title_text := ''First''\<rparr>,
                 (example_node ''/products/b'')\<lparr>title_text := ''Other''\<rparr>,
                 (example_node ''/products/a'')\<lparr>title_text := ''Second''\<rparr>],
        anchors = []\<rparr>"]
     parse_products_first_occurrence[of "\<lambda>b h. b @ h" "example_cfg ''Acme''"
       "\<lparr>nodes = [],
        anchors = [\<lparr>a_href = Some ''/products/a'', a_text = ''First''\<rparr>,
                   \<lparr>a_href = Some ''/products/a'', a_text = ''Second''\<rparr>]\<rparr>"]
  by (simp add: candidates_def fallback_product_def extract_node_def example_cfg_def
        example_node_def List.map_filter_simps selector_set_def startswith_slash_def Let_def)

section \<open>Remote write failures\<close>

text \<open>
  Claim C5. When the remote write of an item raises, \<open>process_item\<close> returns the state it
  was given: the local mirror is not written, the item is not appended to the new-items
  list, and neither its identifier nor its URL is added to a seen-set. The loop over the
  items goes on with the next item from that same state.
\<close>

theorem remote_failure_skips_item:
  assumes "\<not> io_remote_ok (env (url p))"
  shows "process_item existing env p st = st
     \<and> fold (process_item existing env) (p # ps) st = fold (process_item existing env) ps st"
  using assms by (simp add: process_item_def upsert_firestore_def Let_def)

theorem remote_failure_skips_item_witness:
  "\<not> io_remote_ok (example_io ''t1'' False (url (example_product ''Acme'' ''A'' ''u1'' [])))
   \<and> process_item Map.empty (example_io ''t1'' False) (example_product ''Acme'' ''A'' ''u1'' [])
       \<lparr>fdb = [], conn = \<lparr>cols = example_cols, rows = []\<rparr>, new_items = [],
        seen_ids_by_roaster = [], seen_urls_by_roaster = [], succeeded_roasters = {''Acme''}\<rparr>
     = \<lparr>fdb = [], conn = \<lparr>cols = example_cols, rows = []\<rparr>, new_items = [],
        seen_ids_by_roaster = [], seen_urls_by_roaster = [], succeeded_roasters = {''Acme''}\<rparr>"
proof -
  have h: "\<not> io_remote_ok (example_io ''t1'' False (url (example_product ''Acme'' ''A'' ''u1'' [])))"
    by (simp add: example_io_def)
  show ?thesis
    using h remote_failure_skips_item[where env = "example_io ''t1'' False"
        and p = "example_product ''Acme'' ''A'' ''u1'' []", OF h]
    by blast
qed

section \<open>The notification composer\<close>

text \<open>
  Claim C8. For a non-empty list of new items the third component of the message, the
  primary identifier, is the identifier of the first pair of the list, whichever of the
  three cases (one item, one roaster, several roasters) composes the text.
\<close>

theorem primary_identifier_is_first:
  assumes "items \<noteq> []"
  shows "snd (snd (build_ntfy_message items)) = Some (snd (hd items))"
proof (cases items)
  case Nil
  with assms show ?thesis by simp
next
  case (Cons x rest)
  obtain p pid where x: "x = (p, pid)" by (cases x)
  show ?thesis
    unfolding Cons x build_ntfy_message_def
    by (simp add: Let_def split: list.split)
qed

theorem primary_identifier_is_first_witness:
  "[(example_product ''Zed'' ''Z1'' ''uz'' [], ''idz''),
    (example_product ''Acme'' ''A1'' ''ua1'' [], ''ida1''),
    (example_product ''Acme'' ''A2'' ''ua2'' [], ''ida2'')] \<noteq> []
   \<and> snd (snd (build_ntfy_message
        [(example_product ''Zed'' ''Z1'' ''uz'' [], ''idz''),
         (example_product ''Acme'' ''A1'' ''ua1'' [], ''ida1''),
         (example_product ''Acme'' ''A2'' ''ua2'' [], ''ida2'')])) = Some ''idz''"
  using primary_identifier_is_first[of
        "[(example_product ''Zed'' ''Z1'' ''uz'' [], ''idz''),
          (example_product ''Acme'' ''A1'' ''ua1'' [], ''ida1''),
          (example_product ''Acme'' ''A2'' ''ua2'' [], ''ida2'')]"]
  by simp











section \<open>The first-seen timestamp of the local mirror\<close>















end
